theory Spec2Isabelle
  imports Main "HOL-Library.Word"
begin

section \<open>Data model of the packet decoder\<close>

text \<open>
  The embedding follows \<^verbatim>\<open>libipt/src/pt_packet_decoder.c\<close>.

  A pointer into the trace buffer (\<^verbatim>\<open>const uint8_t *\<close>) is a 64-bit address; the null
  pointer is the address 0, so \<^verbatim>\<open>!pos\<close> is \<open>pos = 0\<close>, pointer comparison is the
  unsigned order of the addresses and pointer arithmetic wraps around modulo \<open>2 ^ 64\<close>.
  The trace buffer is a read-only memory, a function from addresses to bytes, that
  every operation which can reach the buffer takes as an argument.

  A pointer argument that may be null (\<^verbatim>\<open>decoder\<close>, \<^verbatim>\<open>config\<close>, \<^verbatim>\<open>packet\<close>,
  \<^verbatim>\<open>offset\<close>) is an \<open>option\<close>: \<open>None\<close> is the null pointer, \<open>Some x\<close> points to
  the object \<open>x\<close>. An operation returns its status together with the new contents of
  the objects it may write.

  A status is the C \<^verbatim>\<open>int\<close> result: a negative value \<^verbatim>\<open>-pte_...\<close> is \<open>Inl\<close> of the
  error code, a non-negative value (zero, or a number of bytes) is \<open>Inr\<close> of it.
\<close>

type_synonym addr = "64 word"

type_synonym memory = "addr \<Rightarrow> 8 word"

text \<open>
  The error codes the file returns itself are \<open>pte_internal\<close>, \<open>pte_invalid\<close>,
  \<open>pte_nosync\<close> and \<open>pte_bad_config\<close>. The remaining codes stand for the data-format
  errors of the collaborators (unknown opcode, malformed payload, end of the stream).
\<close>

datatype pt_error_code =
    pte_internal
  | pte_invalid
  | pte_nosync
  | pte_bad_opc
  | pte_bad_packet
  | pte_eos
  | pte_bad_config

type_synonym status = "pt_error_code + nat"

text \<open>\<^verbatim>\<open>struct pt_config\<close>: the fields \<^verbatim>\<open>size\<close>, \<^verbatim>\<open>begin\<close> and \<^verbatim>\<open>end\<close>.\<close>

record pt_config =
  cfg_size :: nat
  cfg_begin :: addr
  cfg_end :: addr

text \<open>\<^verbatim>\<open>struct pt_packet_decoder\<close>: the view, the cursor and the last sync point.\<close>

record pt_packet_decoder =
  config :: pt_config
  pos :: addr
  sync :: addr

datatype pt_packet_type =
    ppt_unknown
  | ppt_pad
  | ppt_psb
  | ppt_tip
  | ppt_tnt_8
  | ppt_tnt_64
  | ppt_tip_pge
  | ppt_tip_pgd
  | ppt_fup
  | ppt_pip
  | ppt_ovf
  | ppt_mode
  | ppt_psbend
  | ppt_tsc
  | ppt_cbr

text \<open>
  \<^verbatim>\<open>struct pt_packet\<close>: the fields \<^verbatim>\<open>type\<close>, \<^verbatim>\<open>size\<close> (a \<^verbatim>\<open>uint8_t\<close>) and the
  \<^verbatim>\<open>payload\<close> union. The union's members are declared outside this file and only
  the readers write them, so the payload is a value of a type parameter.
\<close>

record 'p pt_packet =
  pkt_type :: pt_packet_type
  pkt_size :: "8 word"
  payload :: 'p

text \<open>
  The decode routines of this file, as the values of the function pointer
  \<^verbatim>\<open>dfun->packet\<close>.
\<close>

datatype pkt_decode_fn =
    Decode_unknown
  | Decode_pad
  | Decode_psb
  | Decode_tip
  | Decode_tnt_8
  | Decode_tnt_64
  | Decode_tip_pge
  | Decode_tip_pgd
  | Decode_fup
  | Decode_pip
  | Decode_ovf
  | Decode_mode
  | Decode_psbend
  | Decode_tsc
  | Decode_cbr

text \<open>
  \<^verbatim>\<open>struct pt_decoder_function\<close>: the file reads its member \<^verbatim>\<open>packet\<close> only, a
  function pointer that may be null.
\<close>

record pt_decoder_function =
  packet_fn :: "pkt_decode_fn option"

section \<open>Constants and collaborators declared outside the file\<close>

text \<open>
  The packet sizes \<^verbatim>\<open>ptps_pad\<close>, \<^verbatim>\<open>ptps_psb\<close>, \<^verbatim>\<open>ptps_ovf\<close>, \<^verbatim>\<open>ptps_psbend\<close>,
  \<^verbatim>\<open>sizeof(struct pt_config)\<close>, the dispatch lookup \<^verbatim>\<open>pt_df_fetch\<close>, the marker
  searches \<^verbatim>\<open>pt_sync_forward\<close> and \<^verbatim>\<open>pt_sync_backward\<close> and the field readers
  \<^verbatim>\<open>pt_pkt_read_...\<close> come from headers and files that are not part of
  \<^verbatim>\<open>pt_packet_decoder.c\<close>. They are parameters of the embedding, collected in one
  record. A collaborator takes the memory and the arguments the C call passes, and
  returns its status with the objects it writes through its pointer arguments: the
  found entry, the found sync point, the payload member, and for
  \<^verbatim>\<open>pt_pkt_read_unknown\<close> the whole packet (whose pointer may be null).
\<close>

record 'p pt_extern =
  sizeof_config :: nat
  ptps_pad :: nat
  ptps_psb :: nat
  ptps_ovf :: nat
  ptps_psbend :: nat
  pt_df_fetch :: "memory \<Rightarrow> addr \<Rightarrow> pt_config \<Rightarrow> pt_error_code + pt_decoder_function option"
  pt_sync_forward :: "memory \<Rightarrow> addr \<Rightarrow> pt_config \<Rightarrow> pt_error_code + addr"
  pt_sync_backward :: "memory \<Rightarrow> addr \<Rightarrow> pt_config \<Rightarrow> pt_error_code + addr"
  pt_pkt_read_unknown ::
    "memory \<Rightarrow> 'p pt_packet option \<Rightarrow> addr \<Rightarrow> pt_config \<Rightarrow> status \<times> 'p pt_packet option"
  pt_pkt_read_psb :: "memory \<Rightarrow> addr \<Rightarrow> pt_config \<Rightarrow> status"
  pt_pkt_read_ip :: "memory \<Rightarrow> 'p \<Rightarrow> addr \<Rightarrow> pt_config \<Rightarrow> status \<times> 'p"
  pt_pkt_read_tnt_8 :: "memory \<Rightarrow> 'p \<Rightarrow> addr \<Rightarrow> pt_config \<Rightarrow> status \<times> 'p"
  pt_pkt_read_tnt_64 :: "memory \<Rightarrow> 'p \<Rightarrow> addr \<Rightarrow> pt_config \<Rightarrow> status \<times> 'p"
  pt_pkt_read_pip :: "memory \<Rightarrow> 'p \<Rightarrow> addr \<Rightarrow> pt_config \<Rightarrow> status \<times> 'p"
  pt_pkt_read_mode :: "memory \<Rightarrow> 'p \<Rightarrow> addr \<Rightarrow> pt_config \<Rightarrow> status \<times> 'p"
  pt_pkt_read_tsc :: "memory \<Rightarrow> 'p \<Rightarrow> addr \<Rightarrow> pt_config \<Rightarrow> status \<times> 'p"
  pt_pkt_read_cbr :: "memory \<Rightarrow> 'p \<Rightarrow> addr \<Rightarrow> pt_config \<Rightarrow> status \<times> 'p"

section \<open>Construction, synchronisation and offset queries\<close>

text \<open>
  \<^verbatim>\<open>pt_pkt_decoder_init\<close>: \<^verbatim>\<open>memset(decoder, 0, ...)\<close> followed by the copy of the
  configuration leaves \<open>pos\<close> and \<open>sync\<close> null.
\<close>

definition pt_pkt_decoder_init ::
  "'p pt_extern \<Rightarrow> pt_packet_decoder option \<Rightarrow> pt_config option \<Rightarrow>
     status \<times> pt_packet_decoder option" where
  "pt_pkt_decoder_init ext dec cfg =
     (case (dec, cfg) of
        (Some d, Some c) \<Rightarrow>
          if cfg_size c \<noteq> sizeof_config ext then (Inl pte_bad_config, dec)
          else if cfg_begin c = 0 \<or> cfg_end c < cfg_begin c then (Inl pte_bad_config, dec)
          else (Inr 0, Some \<lparr>config = c, pos = 0, sync = 0\<rparr>)
      | _ \<Rightarrow> (Inl pte_invalid, dec))"

definition pt_pkt_sync_forward ::
  "'p pt_extern \<Rightarrow> memory \<Rightarrow> pt_packet_decoder option \<Rightarrow> status \<times> pt_packet_decoder option" where
  "pt_pkt_sync_forward ext mem dec =
     (case dec of
        None \<Rightarrow> (Inl pte_invalid, dec)
      | Some d \<Rightarrow>
          let sync0 = sync d;
              pos0 = pos d;
              pos1 = (if pos0 = 0 then cfg_begin (config d) else pos0);
              pos2 = (if pos1 = sync0 then pos1 + of_nat (ptps_psb ext) else pos1)
          in (case pt_sync_forward ext mem pos2 (config d) of
                Inl e \<Rightarrow> (Inl e, dec)
              | Inr s \<Rightarrow> (Inr 0, Some (d\<lparr>sync := s, pos := s\<rparr>))))"

definition pt_pkt_sync_backward ::
  "'p pt_extern \<Rightarrow> memory \<Rightarrow> pt_packet_decoder option \<Rightarrow> status \<times> pt_packet_decoder option" where
  "pt_pkt_sync_backward ext mem dec =
     (case dec of
        None \<Rightarrow> (Inl pte_invalid, dec)
      | Some d \<Rightarrow>
          let pos0 = sync d;
              pos1 = (if pos0 = 0 then cfg_end (config d) else pos0)
          in (case pt_sync_backward ext mem pos1 (config d) of
                Inl e \<Rightarrow> (Inl e, dec)
              | Inr s \<Rightarrow> (Inr 0, Some (d\<lparr>sync := s, pos := s\<rparr>))))"

text \<open>\<^verbatim>\<open>pt_pkt_sync_set\<close>: the offset is a \<^verbatim>\<open>uint64_t\<close>.\<close>

definition pt_pkt_sync_set ::
  "pt_packet_decoder option \<Rightarrow> 64 word \<Rightarrow> status \<times> pt_packet_decoder option" where
  "pt_pkt_sync_set dec offset =
     (case dec of
        None \<Rightarrow> (Inl pte_invalid, dec)
      | Some d \<Rightarrow>
          let begin_p = cfg_begin (config d);
              end_p = cfg_end (config d);
              pos_p = begin_p + offset
          in if end_p < pos_p \<or> pos_p < begin_p then (Inl pte_invalid, dec)
             else (Inr 0, Some (d\<lparr>sync := pos_p, pos := pos_p\<rparr>)))"

text \<open>
  \<^verbatim>\<open>pt_pkt_get_offset\<close> and \<^verbatim>\<open>pt_pkt_get_sync_offset\<close>: the second argument is the
  cell \<^verbatim>\<open>*offset\<close> the result is written to; its new contents are returned.
\<close>

definition pt_pkt_get_offset ::
  "pt_packet_decoder option \<Rightarrow> 64 word option \<Rightarrow> status \<times> 64 word option" where
  "pt_pkt_get_offset dec offset =
     (case (dec, offset) of
        (Some d, Some _) \<Rightarrow>
          if pos d = 0 then (Inl pte_nosync, offset)
          else (Inr 0, Some (pos d - cfg_begin (config d)))
      | _ \<Rightarrow> (Inl pte_invalid, offset))"

definition pt_pkt_get_sync_offset ::
  "pt_packet_decoder option \<Rightarrow> 64 word option \<Rightarrow> status \<times> 64 word option" where
  "pt_pkt_get_sync_offset dec offset =
     (case (dec, offset) of
        (Some d, Some _) \<Rightarrow>
          if sync d = 0 then (Inl pte_nosync, offset)
          else (Inr 0, Some (sync d - cfg_begin (config d)))
      | _ \<Rightarrow> (Inl pte_invalid, offset))"

section \<open>Decode routines\<close>

text \<open>
  A decode routine takes the decoder and the packet pointer and returns its status with
  the new contents of the packet. No routine writes the decoder: the readers get
  \<^verbatim>\<open>decoder->pos\<close> by value and the configuration through a pointer to \<^verbatim>\<open>const\<close>.
\<close>

definition pt_pkt_decode_unknown ::
  "'p pt_extern \<Rightarrow> memory \<Rightarrow> pt_packet_decoder option \<Rightarrow> 'p pt_packet option \<Rightarrow>
     status \<times> 'p pt_packet option" where
  "pt_pkt_decode_unknown ext mem dec pkt =
     (case dec of
        None \<Rightarrow> (Inl pte_internal, pkt)
      | Some d \<Rightarrow> pt_pkt_read_unknown ext mem pkt (pos d) (config d))"

definition pt_pkt_decode_pad ::
  "'p pt_extern \<Rightarrow> memory \<Rightarrow> pt_packet_decoder option \<Rightarrow> 'p pt_packet option \<Rightarrow>
     status \<times> 'p pt_packet option" where
  "pt_pkt_decode_pad ext mem dec pkt =
     (case pkt of
        None \<Rightarrow> (Inl pte_internal, pkt)
      | Some p \<Rightarrow>
          (Inr (ptps_pad ext),
           Some (p\<lparr>pkt_type := ppt_pad, pkt_size := of_nat (ptps_pad ext)\<rparr>)))"

text \<open>
  \<^verbatim>\<open>pt_pkt_decode_psb\<close> writes through \<^verbatim>\<open>packet\<close> without a null check. The model
  takes the packet itself: \<^verbatim>\<open>pt_pkt_next\<close>, the caller in this file, passes a packet
  it has checked.
\<close>

definition pt_pkt_decode_psb ::
  "'p pt_extern \<Rightarrow> memory \<Rightarrow> pt_packet_decoder option \<Rightarrow> 'p pt_packet \<Rightarrow>
     status \<times> 'p pt_packet" where
  "pt_pkt_decode_psb ext mem dec p =
     (case dec of
        None \<Rightarrow> (Inl pte_internal, p)
      | Some d \<Rightarrow>
          (case pt_pkt_read_psb ext mem (pos d) (config d) of
             Inl e \<Rightarrow> (Inl e, p)
           | Inr sz \<Rightarrow> (Inr sz, p\<lparr>pkt_type := ppt_psb, pkt_size := of_nat sz\<rparr>)))"

text \<open>
  The routines for tip, tnt-8, tnt-64, tip-pge, tip-pgd, fup, pip, mode, tsc and cbr
  have one body up to the reader they call and the type they store: check both
  pointers, let the reader fill the payload member, return a negative result as it is,
  otherwise store the type and \<^verbatim>\<open>(uint8_t) size\<close>. The body is \<open>decode_with_reader\<close>.
\<close>

definition decode_with_reader ::
  "('p \<Rightarrow> addr \<Rightarrow> pt_config \<Rightarrow> status \<times> 'p) \<Rightarrow> pt_packet_type \<Rightarrow>
     pt_packet_decoder option \<Rightarrow> 'p pt_packet option \<Rightarrow> status \<times> 'p pt_packet option" where
  "decode_with_reader reader ty dec pkt =
     (case (dec, pkt) of
        (Some d, Some p) \<Rightarrow>
          (case reader (payload p) (pos d) (config d) of
             (Inl e, pl) \<Rightarrow> (Inl e, Some (p\<lparr>payload := pl\<rparr>))
           | (Inr sz, pl) \<Rightarrow>
               (Inr sz, Some (p\<lparr>payload := pl, pkt_type := ty, pkt_size := of_nat sz\<rparr>)))
      | _ \<Rightarrow> (Inl pte_internal, pkt))"

definition pt_pkt_decode_tip ::
  "'p pt_extern \<Rightarrow> memory \<Rightarrow> pt_packet_decoder option \<Rightarrow> 'p pt_packet option \<Rightarrow>
     status \<times> 'p pt_packet option" where
  "pt_pkt_decode_tip ext mem = decode_with_reader (pt_pkt_read_ip ext mem) ppt_tip"

definition pt_pkt_decode_tnt_8 ::
  "'p pt_extern \<Rightarrow> memory \<Rightarrow> pt_packet_decoder option \<Rightarrow> 'p pt_packet option \<Rightarrow>
     status \<times> 'p pt_packet option" where
  "pt_pkt_decode_tnt_8 ext mem = decode_with_reader (pt_pkt_read_tnt_8 ext mem) ppt_tnt_8"

definition pt_pkt_decode_tnt_64 ::
  "'p pt_extern \<Rightarrow> memory \<Rightarrow> pt_packet_decoder option \<Rightarrow> 'p pt_packet option \<Rightarrow>
     status \<times> 'p pt_packet option" where
  "pt_pkt_decode_tnt_64 ext mem = decode_with_reader (pt_pkt_read_tnt_64 ext mem) ppt_tnt_64"

definition pt_pkt_decode_tip_pge ::
  "'p pt_extern \<Rightarrow> memory \<Rightarrow> pt_packet_decoder option \<Rightarrow> 'p pt_packet option \<Rightarrow>
     status \<times> 'p pt_packet option" where
  "pt_pkt_decode_tip_pge ext mem = decode_with_reader (pt_pkt_read_ip ext mem) ppt_tip_pge"

definition pt_pkt_decode_tip_pgd ::
  "'p pt_extern \<Rightarrow> memory \<Rightarrow> pt_packet_decoder option \<Rightarrow> 'p pt_packet option \<Rightarrow>
     status \<times> 'p pt_packet option" where
  "pt_pkt_decode_tip_pgd ext mem = decode_with_reader (pt_pkt_read_ip ext mem) ppt_tip_pgd"

definition pt_pkt_decode_fup ::
  "'p pt_extern \<Rightarrow> memory \<Rightarrow> pt_packet_decoder option \<Rightarrow> 'p pt_packet option \<Rightarrow>
     status \<times> 'p pt_packet option" where
  "pt_pkt_decode_fup ext mem = decode_with_reader (pt_pkt_read_ip ext mem) ppt_fup"

definition pt_pkt_decode_pip ::
  "'p pt_extern \<Rightarrow> memory \<Rightarrow> pt_packet_decoder option \<Rightarrow> 'p pt_packet option \<Rightarrow>
     status \<times> 'p pt_packet option" where
  "pt_pkt_decode_pip ext mem = decode_with_reader (pt_pkt_read_pip ext mem) ppt_pip"

definition pt_pkt_decode_ovf ::
  "'p pt_extern \<Rightarrow> memory \<Rightarrow> pt_packet_decoder option \<Rightarrow> 'p pt_packet option \<Rightarrow>
     status \<times> 'p pt_packet option" where
  "pt_pkt_decode_ovf ext mem dec pkt =
     (case pkt of
        None \<Rightarrow> (Inl pte_internal, pkt)
      | Some p \<Rightarrow>
          (Inr (ptps_ovf ext),
           Some (p\<lparr>pkt_type := ppt_ovf, pkt_size := of_nat (ptps_ovf ext)\<rparr>)))"

definition pt_pkt_decode_mode ::
  "'p pt_extern \<Rightarrow> memory \<Rightarrow> pt_packet_decoder option \<Rightarrow> 'p pt_packet option \<Rightarrow>
     status \<times> 'p pt_packet option" where
  "pt_pkt_decode_mode ext mem = decode_with_reader (pt_pkt_read_mode ext mem) ppt_mode"

definition pt_pkt_decode_psbend ::
  "'p pt_extern \<Rightarrow> memory \<Rightarrow> pt_packet_decoder option \<Rightarrow> 'p pt_packet option \<Rightarrow>
     status \<times> 'p pt_packet option" where
  "pt_pkt_decode_psbend ext mem dec pkt =
     (case pkt of
        None \<Rightarrow> (Inl pte_internal, pkt)
      | Some p \<Rightarrow>
          (Inr (ptps_psbend ext),
           Some (p\<lparr>pkt_type := ppt_psbend, pkt_size := of_nat (ptps_psbend ext)\<rparr>)))"

definition pt_pkt_decode_tsc ::
  "'p pt_extern \<Rightarrow> memory \<Rightarrow> pt_packet_decoder option \<Rightarrow> 'p pt_packet option \<Rightarrow>
     status \<times> 'p pt_packet option" where
  "pt_pkt_decode_tsc ext mem = decode_with_reader (pt_pkt_read_tsc ext mem) ppt_tsc"

definition pt_pkt_decode_cbr ::
  "'p pt_extern \<Rightarrow> memory \<Rightarrow> pt_packet_decoder option \<Rightarrow> 'p pt_packet option \<Rightarrow>
     status \<times> 'p pt_packet option" where
  "pt_pkt_decode_cbr ext mem = decode_with_reader (pt_pkt_read_cbr ext mem) ppt_cbr"

section \<open>The decode step\<close>

text \<open>
  \<open>call_packet\<close> is the indirect call \<^verbatim>\<open>dfun->packet(decoder, packet)\<close> of
  \<^verbatim>\<open>pt_pkt_next\<close>, made after both pointers have been checked.
\<close>

fun call_packet ::
  "'p pt_extern \<Rightarrow> memory \<Rightarrow> pkt_decode_fn \<Rightarrow> pt_packet_decoder \<Rightarrow> 'p pt_packet \<Rightarrow>
     status \<times> 'p pt_packet option" where
  "call_packet ext mem Decode_unknown d p = pt_pkt_decode_unknown ext mem (Some d) (Some p)"
| "call_packet ext mem Decode_pad d p = pt_pkt_decode_pad ext mem (Some d) (Some p)"
| "call_packet ext mem Decode_psb d p =
     (case pt_pkt_decode_psb ext mem (Some d) p of (st, p') \<Rightarrow> (st, Some p'))"
| "call_packet ext mem Decode_tip d p = pt_pkt_decode_tip ext mem (Some d) (Some p)"
| "call_packet ext mem Decode_tnt_8 d p = pt_pkt_decode_tnt_8 ext mem (Some d) (Some p)"
| "call_packet ext mem Decode_tnt_64 d p = pt_pkt_decode_tnt_64 ext mem (Some d) (Some p)"
| "call_packet ext mem Decode_tip_pge d p = pt_pkt_decode_tip_pge ext mem (Some d) (Some p)"
| "call_packet ext mem Decode_tip_pgd d p = pt_pkt_decode_tip_pgd ext mem (Some d) (Some p)"
| "call_packet ext mem Decode_fup d p = pt_pkt_decode_fup ext mem (Some d) (Some p)"
| "call_packet ext mem Decode_pip d p = pt_pkt_decode_pip ext mem (Some d) (Some p)"
| "call_packet ext mem Decode_ovf d p = pt_pkt_decode_ovf ext mem (Some d) (Some p)"
| "call_packet ext mem Decode_mode d p = pt_pkt_decode_mode ext mem (Some d) (Some p)"
| "call_packet ext mem Decode_psbend d p = pt_pkt_decode_psbend ext mem (Some d) (Some p)"
| "call_packet ext mem Decode_tsc d p = pt_pkt_decode_tsc ext mem (Some d) (Some p)"
| "call_packet ext mem Decode_cbr d p = pt_pkt_decode_cbr ext mem (Some d) (Some p)"

text \<open>
  \<^verbatim>\<open>pt_pkt_next\<close> returns its status, the decoder and the packet. The cursor moves by
  \<^verbatim>\<open>decoder->pos += size\<close> on the last path only.
\<close>

definition pt_pkt_next ::
  "'p pt_extern \<Rightarrow> memory \<Rightarrow> pt_packet_decoder option \<Rightarrow> 'p pt_packet option \<Rightarrow>
     status \<times> pt_packet_decoder option \<times> 'p pt_packet option" where
  "pt_pkt_next ext mem dec pkt =
     (case (pkt, dec) of
        (Some p, Some d) \<Rightarrow>
          (case pt_df_fetch ext mem (pos d) (config d) of
             Inl e \<Rightarrow> (Inl e, dec, pkt)
           | Inr None \<Rightarrow> (Inl pte_internal, dec, pkt)
           | Inr (Some dfun) \<Rightarrow>
               (case packet_fn dfun of
                  None \<Rightarrow> (Inl pte_internal, dec, pkt)
                | Some f \<Rightarrow>
                    (case call_packet ext mem f d p of
                       (Inl e, pkt') \<Rightarrow> (Inl e, dec, pkt')
                     | (Inr sz, pkt') \<Rightarrow>
                         (Inr sz, Some (d\<lparr>pos := pos d + of_nat sz\<rparr>), pkt'))))
      | _ \<Rightarrow> (Inl pte_invalid, dec, pkt))"

section \<open>Runs of operations\<close>


text \<open>
  \<open>sync_forward_calls n\<close> is the decoder after \<open>n\<close> calls of \<^verbatim>\<open>pt_pkt_sync_forward\<close>
  in a row; a call that fails returns the decoder as it got it.
\<close>

fun sync_forward_calls ::
  "'p pt_extern \<Rightarrow> memory \<Rightarrow> nat \<Rightarrow> pt_packet_decoder \<Rightarrow> pt_packet_decoder" where
  "sync_forward_calls ext mem 0 d = d"
| "sync_forward_calls ext mem (Suc n) d =
     (case pt_pkt_sync_forward ext mem (Some d) of
        (_, Some d') \<Rightarrow> sync_forward_calls ext mem n d'
      | (_, None) \<Rightarrow> d)"

text \<open>
  The state a successful marker search leaves: cursor and sync point are the same
  non-null address inside the view, with room for a marker of \<open>n\<close> bytes before
  \<open>end\<close>.
\<close>

definition on_marker :: "nat \<Rightarrow> pt_packet_decoder \<Rightarrow> bool" where
  "on_marker n d =
     (pos d = sync d \<and> sync d \<noteq> 0 \<and> cfg_begin (config d) \<le> sync d \<and>
      unat (sync d) + n \<le> unat (cfg_end (config d)))"

text \<open>
  The decoders a caller can reach: one that \<^verbatim>\<open>pt_pkt_decoder_init\<close> has constructed,
  and any decoder an operation of the file leaves when called on a reachable one
  (the offset queries write no decoder). The buffer contents may differ from call to
  call. A decode step counts only if its pointer addition \<^verbatim>\<open>decoder->pos += size\<close> stays
  in the address space, which C requires of it.
\<close>

inductive reachable :: "'p pt_extern \<Rightarrow> pt_packet_decoder \<Rightarrow> bool" for ext where
  reach_init:
    "pt_pkt_decoder_init ext (Some d0) (Some cfg) = (Inr 0, Some d) \<Longrightarrow> reachable ext d"
| reach_sync_forward:
    "reachable ext d \<Longrightarrow> pt_pkt_sync_forward ext mem (Some d) = (st, Some d') \<Longrightarrow>
       reachable ext d'"
| reach_sync_backward:
    "reachable ext d \<Longrightarrow> pt_pkt_sync_backward ext mem (Some d) = (st, Some d') \<Longrightarrow>
       reachable ext d'"
| reach_sync_set:
    "reachable ext d \<Longrightarrow> pt_pkt_sync_set (Some d) off = (st, Some d') \<Longrightarrow> reachable ext d'"
| reach_next:
    "reachable ext d \<Longrightarrow> pt_pkt_next ext mem (Some d) pkt = (st, Some d', pkt') \<Longrightarrow>
       pos d \<le> pos d' \<Longrightarrow> reachable ext d'"

section \<open>Collaborators modelled from the specification\<close>

text \<open>
  Modelled from the spec: the dispatch lookup \<^verbatim>\<open>pt_df_fetch\<close> and its opcode table
  are not part of \<^verbatim>\<open>pt_packet_decoder.c\<close>. The spec (4.3): the lookup finds the decode
  routine for the opcode at \<open>pos\<close> in the dispatch table, an entry or its function may
  be absent, and \<open>pos\<close> is within \<open>[begin, end)\<close> before dispatch. The table is a
  parameter. The spec does not name the status of a cursor outside the range; the model
  returns \<open>pte_eos\<close> at \<open>end\<close> and \<open>pte_nosync\<close> otherwise.
\<close>

definition pt_df_fetch_spec ::
  "(8 word \<Rightarrow> pt_decoder_function option) \<Rightarrow> memory \<Rightarrow> addr \<Rightarrow> pt_config \<Rightarrow>
     pt_error_code + pt_decoder_function option" where
  "pt_df_fetch_spec table mem p cfg =
     (if p = 0 \<or> p < cfg_begin cfg \<or> cfg_end cfg < p then Inl pte_nosync
      else if p = cfg_end cfg then Inl pte_eos
      else Inr (table (mem p)))"

text \<open>The marker pattern \<open>pat\<close> stands at the address \<open>a\<close>.\<close>

definition psb_at :: "8 word list \<Rightarrow> memory \<Rightarrow> addr \<Rightarrow> bool" where
  "psb_at pat mem a = (map (\<lambda>i. mem (a + of_nat i)) [0..<length pat] = pat)"

text \<open>
  Modelled from the spec: the marker search \<^verbatim>\<open>pt_sync_forward\<close> is not part of
  \<^verbatim>\<open>pt_packet_decoder.c\<close>. The spec (4.2): it scans forward from the given position for
  the next occurrence of the fixed marker pattern and fails with NoSync if no marker is
  found before \<open>end\<close>. The pattern is a parameter; a marker counts if all of it lies
  inside the view, and a position outside the view finds none.
\<close>

definition pt_sync_forward_spec ::
  "8 word list \<Rightarrow> memory \<Rightarrow> addr \<Rightarrow> pt_config \<Rightarrow> pt_error_code + addr" where
  "pt_sync_forward_spec pat mem p cfg =
     (if p \<noteq> 0 \<and> cfg_begin cfg \<le> p \<and> unat p + length pat \<le> unat (cfg_end cfg) then
        (case find (psb_at pat mem)
                (map (\<lambda>i. p + of_nat i)
                   [0..<Suc (unat (cfg_end cfg) - (unat p + length pat))]) of
           None \<Rightarrow> Inl pte_nosync
         | Some a \<Rightarrow> Inr a)
      else Inl pte_nosync)"

text \<open>
  Modelled from the spec: the marker search \<^verbatim>\<open>pt_sync_backward\<close> is not part of
  \<^verbatim>\<open>pt_packet_decoder.c\<close>. The spec (4.2): it scans backward from the given position
  for the nearest preceding occurrence of the marker. A marker counts if it starts
  before the position and all of it lies inside the view.
\<close>

definition pt_sync_backward_spec ::
  "8 word list \<Rightarrow> memory \<Rightarrow> addr \<Rightarrow> pt_config \<Rightarrow> pt_error_code + addr" where
  "pt_sync_backward_spec pat mem p cfg =
     (if cfg_begin cfg \<noteq> 0 \<and> cfg_begin cfg \<le> p \<and> p \<le> cfg_end cfg then
        (case find (\<lambda>a. unat a + length pat \<le> unat (cfg_end cfg) \<and> psb_at pat mem a)
                (rev (map (\<lambda>i. cfg_begin cfg + of_nat i)
                        [0..<unat p - unat (cfg_begin cfg)])) of
           None \<Rightarrow> Inl pte_nosync
         | Some a \<Rightarrow> Inr a)
      else Inl pte_nosync)"

section \<open>An example instance of the collaborators\<close>

text \<open>
  The operations are run on concrete buffers with the instance \<open>sample_ext\<close>: the
  16-byte marker \<^verbatim>\<open>02 82 02 82 ...\<close>, a table of a few one-byte opcodes, readers that
  consume a fixed number of bytes if the view holds them, and a marker reader that
  compares the bytes at the cursor with the pattern. The payload is a number.
  \<open>buffer_at base bytes\<close> is the memory that holds \<open>bytes\<close> from \<open>base\<close> on.
\<close>

definition buffer_at :: "addr \<Rightarrow> 8 word list \<Rightarrow> memory" where
  "buffer_at base bytes a =
     (if base \<le> a \<and> unat (a - base) < length bytes then bytes ! unat (a - base) else 0)"

definition sample_psb :: "8 word list" where
  "sample_psb = [0x02, 0x82, 0x02, 0x82, 0x02, 0x82, 0x02, 0x82,
                 0x02, 0x82, 0x02, 0x82, 0x02, 0x82, 0x02, 0x82]"

definition sample_table :: "8 word \<Rightarrow> pt_decoder_function option" where
  "sample_table opc =
     Some \<lparr>packet_fn = Some
       (if opc = 0x00 then Decode_pad
        else if opc = 0x02 then Decode_psb
        else if opc = 0x0d then Decode_tip
        else if opc = 0x19 then Decode_tsc
        else Decode_unknown)\<rparr>"

definition sample_reader :: "nat \<Rightarrow> memory \<Rightarrow> nat \<Rightarrow> addr \<Rightarrow> pt_config \<Rightarrow> status \<times> nat" where
  "sample_reader n mem pl p cfg =
     (if p \<noteq> 0 \<and> cfg_begin cfg \<le> p \<and> unat p + n \<le> unat (cfg_end cfg)
      then (Inr n, unat (mem (p + 1)))
      else (Inl pte_eos, pl))"

definition sample_read_psb :: "memory \<Rightarrow> addr \<Rightarrow> pt_config \<Rightarrow> status" where
  "sample_read_psb mem p cfg =
     (if p = 0 then Inl pte_internal
      else if unat (cfg_end cfg) < unat p + length sample_psb then Inl pte_eos
      else if psb_at sample_psb mem p then Inr (length sample_psb)
      else Inl pte_bad_packet)"

definition sample_ext :: "nat pt_extern" where
  "sample_ext =
     \<lparr>sizeof_config = 24,
      ptps_pad = 1,
      ptps_psb = 16,
      ptps_ovf = 2,
      ptps_psbend = 2,
      pt_df_fetch = pt_df_fetch_spec sample_table,
      pt_sync_forward = pt_sync_forward_spec sample_psb,
      pt_sync_backward = pt_sync_backward_spec sample_psb,
      pt_pkt_read_unknown = (\<lambda>mem pkt p cfg. (Inl pte_bad_opc, pkt)),
      pt_pkt_read_psb = sample_read_psb,
      pt_pkt_read_ip = sample_reader 7,
      pt_pkt_read_tnt_8 = sample_reader 1,
      pt_pkt_read_tnt_64 = sample_reader 8,
      pt_pkt_read_pip = sample_reader 8,
      pt_pkt_read_mode = sample_reader 2,
      pt_pkt_read_tsc = sample_reader 8,
      pt_pkt_read_cbr = sample_reader 4\<rparr>"

text \<open>
  A view of 33 bytes at the address \<open>0x1000\<close>, the buffer of two markers back to back
  and one pad byte, a decoder constructed on the view and an empty packet.
\<close>

definition sample_config :: pt_config where
  "sample_config = \<lparr>cfg_size = 24, cfg_begin = 0x1000, cfg_end = 0x1021\<rparr>"

definition sample_memory :: memory where
  "sample_memory = buffer_at 0x1000 (sample_psb @ sample_psb @ [0x00])"

definition sample_decoder :: pt_packet_decoder where
  "sample_decoder = \<lparr>config = sample_config, pos = 0, sync = 0\<rparr>"

definition sample_packet :: "nat pt_packet" where
  "sample_packet = \<lparr>pkt_type = ppt_unknown, pkt_size = 0, payload = 0\<rparr>"




text \<open>
  A view of three bytes that holds the first bytes of a tip packet only, and a buffer
  without a marker at its start.
\<close>

definition short_config :: pt_config where
  "short_config = \<lparr>cfg_size = 24, cfg_begin = 0x1000, cfg_end = 0x1003\<rparr>"

definition short_memory :: memory where
  "short_memory = buffer_at 0x1000 [0x0d, 0x01, 0x02]"

definition short_decoder :: pt_packet_decoder where
  "short_decoder = \<lparr>config = short_config, pos = 0x1000, sync = 0x1000\<rparr>"

definition blank_memory :: memory where
  "blank_memory = buffer_at 0x1000 (replicate 33 0x00)"

definition synced_decoder :: pt_packet_decoder where
  "synced_decoder = \<lparr>config = sample_config, pos = 0x1000, sync = 0x1000\<rparr>"

text \<open>
  Two instances with a defective table: one has no entry for any opcode, the other has
  entries without a decode function.
\<close>

definition no_entry_ext :: "nat pt_extern" where
  "no_entry_ext = sample_ext\<lparr>pt_df_fetch := pt_df_fetch_spec (\<lambda>opc. None)\<rparr>"

definition no_routine_ext :: "nat pt_extern" where
  "no_routine_ext =
     sample_ext\<lparr>pt_df_fetch := pt_df_fetch_spec (\<lambda>opc. Some \<lparr>packet_fn = None\<rparr>)\<rparr>"

definition end_decoder :: pt_packet_decoder where
  "end_decoder = \<lparr>config = sample_config, pos = 0x1021, sync = 0x1000\<rparr>"

definition resynced_decoder :: pt_packet_decoder where
  "resynced_decoder = \<lparr>config = sample_config, pos = 0x1010, sync = 0x1010\<rparr>"

definition advanced_decoder :: pt_packet_decoder where
  "advanced_decoder = \<lparr>config = sample_config, pos = 0x1010, sync = 0x1000\<rparr>"

section \<open>Construction\<close>

text \<open>
  C7. Construction fails with \<open>pte_invalid\<close> exactly when the decoder or the
  configuration argument is null. With both present it fails with \<open>pte_bad_config\<close>
  exactly when the size tag differs from the compiled size, \<open>begin\<close> is null or
  \<open>end < begin\<close>. On success the decoder holds a copy of the configuration, \<open>pos\<close> and
  \<open>sync\<close> are null, and the offset query that follows fails with \<open>pte_nosync\<close>.
\<close>

theorem decoder_init_validates:
  "(fst (pt_pkt_decoder_init ext dec cfg) = Inl pte_invalid) = (dec = None \<or> cfg = None) \<and>
   (fst (pt_pkt_decoder_init ext dec cfg) = Inl pte_bad_config) =
     (\<exists>d c. dec = Some d \<and> cfg = Some c \<and>
        (cfg_size c \<noteq> sizeof_config ext \<or> cfg_begin c = 0 \<or> cfg_end c < cfg_begin c)) \<and>
   (\<forall>n dec'. pt_pkt_decoder_init ext dec cfg = (Inr n, dec') \<longrightarrow>
      n = 0 \<and> (\<exists>c. cfg = Some c \<and> dec' = Some \<lparr>config = c, pos = 0, sync = 0\<rparr>) \<and>
      pt_pkt_get_offset dec' (Some x) = (Inl pte_nosync, Some x))"
proof (intro conjI allI impI)
  show "(fst (pt_pkt_decoder_init ext dec cfg) = Inl pte_invalid) = (dec = None \<or> cfg = None)"
    by (auto simp: pt_pkt_decoder_init_def split: option.splits)
next
  show "(fst (pt_pkt_decoder_init ext dec cfg) = Inl pte_bad_config) =
     (\<exists>d c. dec = Some d \<and> cfg = Some c \<and>
        (cfg_size c \<noteq> sizeof_config ext \<or> cfg_begin c = 0 \<or> cfg_end c < cfg_begin c))"
    by (auto simp: pt_pkt_decoder_init_def split: option.splits)
next
  fix n dec'
  assume ok: "pt_pkt_decoder_init ext dec cfg = (Inr n, dec')"
  then show "n = 0"
    by (auto simp: pt_pkt_decoder_init_def split: option.splits if_splits)
  from ok show c: "\<exists>c. cfg = Some c \<and> dec' = Some \<lparr>config = c, pos = 0, sync = 0\<rparr>"
    by (auto simp: pt_pkt_decoder_init_def split: option.splits if_splits)
  from c show "pt_pkt_get_offset dec' (Some x) = (Inl pte_nosync, Some x)"
    by (auto simp: pt_pkt_get_offset_def)
qed

theorem decoder_init_validates_witness:
  "pt_pkt_decoder_init sample_ext (Some synced_decoder) (Some sample_config) =
     (Inr 0, Some sample_decoder) \<and>
   pt_pkt_get_offset (Some sample_decoder) (Some 7) = (Inl pte_nosync, Some 7)"
proof -
  have ok: "pt_pkt_decoder_init sample_ext (Some synced_decoder) (Some sample_config) =
      (Inr 0, Some sample_decoder)"
    by (simp add: pt_pkt_decoder_init_def sample_ext_def sample_config_def sample_decoder_def)
  with decoder_init_validates [of sample_ext "Some synced_decoder" "Some sample_config" 7]
  show ?thesis by blast
qed

section \<open>Explicit seek and offset query\<close>

lemma sync_set_in_range:
  fixes b e n :: "64 word"
  assumes "b \<le> e"
  shows "(\<not> (e < b + n \<or> b + n < b)) = (n \<le> e - b)"
  using assms by unat_arith

lemma sync_set_not_null:
  fixes b e n :: "64 word"
  assumes "b \<le> e" and "b \<noteq> 0" and "n \<le> e - b"
  shows "b + n \<noteq> 0"
  using assms by unat_arith

text \<open>
  C6. For a decoder whose view is valid (\<open>begin\<close> not null, \<open>begin \<le> end\<close>, which
  construction checks and no operation changes) and every 64-bit offset \<open>n\<close>: \<^verbatim>\<open>pt_pkt_sync_set\<close> succeeds
  exactly when \<open>n \<le> end - begin\<close>; after a success the offset query returns \<open>n\<close>;
  outside the range the call fails with \<open>pte_invalid\<close> and leaves the decoder as it
  was.
\<close>

theorem sync_set_offset_roundtrip:
  assumes "cfg_begin (config d) \<noteq> 0" and "cfg_begin (config d) \<le> cfg_end (config d)"
  shows "(fst (pt_pkt_sync_set (Some d) n) = Inr 0) =
           (n \<le> cfg_end (config d) - cfg_begin (config d)) \<and>
         (n \<le> cfg_end (config d) - cfg_begin (config d) \<longrightarrow>
            (\<exists>d'. pt_pkt_sync_set (Some d) n = (Inr 0, Some d') \<and>
                  pt_pkt_get_offset (Some d') (Some x) = (Inr 0, Some n))) \<and>
         (\<not> n \<le> cfg_end (config d) - cfg_begin (config d) \<longrightarrow>
            pt_pkt_sync_set (Some d) n = (Inl pte_invalid, Some d))"
proof -
  let ?b = "cfg_begin (config d)" and ?e = "cfg_end (config d)"
  have set: "pt_pkt_sync_set (Some d) n =
      (if n \<le> ?e - ?b then (Inr 0, Some (d\<lparr>sync := ?b + n, pos := ?b + n\<rparr>))
       else (Inl pte_invalid, Some d))"
    using sync_set_in_range [OF assms(2), of n]
    by (auto simp: pt_pkt_sync_set_def Let_def)
  have get: "pt_pkt_get_offset (Some (d\<lparr>sync := ?b + n, pos := ?b + n\<rparr>)) (Some x) =
      (Inr 0, Some n)" if "n \<le> ?e - ?b"
    using sync_set_not_null [OF assms(2) assms(1) that]
    by (simp add: pt_pkt_get_offset_def)
  from set get show ?thesis by simp
qed

theorem sync_set_offset_roundtrip_witness:
  "cfg_begin (config sample_decoder) \<noteq> 0 \<and>
   cfg_begin (config sample_decoder) \<le> cfg_end (config sample_decoder) \<and>
   fst (pt_pkt_sync_set (Some sample_decoder) 33) = Inr 0 \<and>
   (\<exists>d'. pt_pkt_sync_set (Some sample_decoder) 33 = (Inr 0, Some d') \<and>
         pt_pkt_get_offset (Some d') (Some 0) = (Inr 0, Some 33)) \<and>
   pt_pkt_sync_set (Some sample_decoder) 34 = (Inl pte_invalid, Some sample_decoder)"
proof -
  have b: "cfg_begin (config sample_decoder) \<noteq> 0"
    and e: "cfg_begin (config sample_decoder) \<le> cfg_end (config sample_decoder)"
    by (simp_all add: sample_decoder_def sample_config_def)
  have r: "(33 :: 64 word) \<le> cfg_end (config sample_decoder) - cfg_begin (config sample_decoder)"
    "\<not> (34 :: 64 word) \<le> cfg_end (config sample_decoder) - cfg_begin (config sample_decoder)"
    by (simp_all add: sample_decoder_def sample_config_def)
  from sync_set_offset_roundtrip [OF b e, of 33 0]
    sync_set_offset_roundtrip [OF b e, of 34 0] b e r
  show ?thesis by simp
qed

section \<open>Decode routines of the payload-less kinds\<close>

text \<open>
  C10. The routines for pad, overflow and psbend do not depend on the decoder
  argument: the result is the one for a null decoder. With a packet present they
  succeed, also for a null decoder, return the constant size and store the kind and
  the size; they fail with \<open>pte_internal\<close> exactly when the packet is null.
\<close>

theorem payloadless_routines_ignore_decoder:
  "pt_pkt_decode_pad ext mem dec pkt = pt_pkt_decode_pad ext mem None pkt \<and>
   pt_pkt_decode_pad ext mem None (Some p) =
     (Inr (ptps_pad ext), Some (p\<lparr>pkt_type := ppt_pad, pkt_size := of_nat (ptps_pad ext)\<rparr>)) \<and>
   (fst (pt_pkt_decode_pad ext mem dec pkt) = Inl pte_internal) = (pkt = None) \<and>
   pt_pkt_decode_ovf ext mem dec pkt = pt_pkt_decode_ovf ext mem None pkt \<and>
   pt_pkt_decode_ovf ext mem None (Some p) =
     (Inr (ptps_ovf ext), Some (p\<lparr>pkt_type := ppt_ovf, pkt_size := of_nat (ptps_ovf ext)\<rparr>)) \<and>
   (fst (pt_pkt_decode_ovf ext mem dec pkt) = Inl pte_internal) = (pkt = None) \<and>
   pt_pkt_decode_psbend ext mem dec pkt = pt_pkt_decode_psbend ext mem None pkt \<and>
   pt_pkt_decode_psbend ext mem None (Some p) =
     (Inr (ptps_psbend ext),
      Some (p\<lparr>pkt_type := ppt_psbend, pkt_size := of_nat (ptps_psbend ext)\<rparr>)) \<and>
   (fst (pt_pkt_decode_psbend ext mem dec pkt) = Inl pte_internal) = (pkt = None)"
  by (cases pkt)
    (simp_all add: pt_pkt_decode_pad_def pt_pkt_decode_ovf_def pt_pkt_decode_psbend_def)

text \<open>
  C2, as the code has it. The routines for pad, overflow and psbend succeed whenever
  the packet is present and return the constant size of the kind, whatever the decoder
  and the memory are. The routine for psb calls the marker reader at the cursor: it
  succeeds exactly when the reader does, returns the size the reader returns, and
  passes the reader's error on.
\<close>

theorem fixed_size_routines:
  "pt_pkt_decode_pad ext mem dec (Some p) =
     (Inr (ptps_pad ext), Some (p\<lparr>pkt_type := ppt_pad, pkt_size := of_nat (ptps_pad ext)\<rparr>)) \<and>
   pt_pkt_decode_pad ext mem' dec' pkt = pt_pkt_decode_pad ext mem dec pkt \<and>
   pt_pkt_decode_ovf ext mem dec (Some p) =
     (Inr (ptps_ovf ext), Some (p\<lparr>pkt_type := ppt_ovf, pkt_size := of_nat (ptps_ovf ext)\<rparr>)) \<and>
   pt_pkt_decode_ovf ext mem' dec' pkt = pt_pkt_decode_ovf ext mem dec pkt \<and>
   pt_pkt_decode_psbend ext mem dec (Some p) =
     (Inr (ptps_psbend ext),
      Some (p\<lparr>pkt_type := ppt_psbend, pkt_size := of_nat (ptps_psbend ext)\<rparr>)) \<and>
   pt_pkt_decode_psbend ext mem' dec' pkt = pt_pkt_decode_psbend ext mem dec pkt \<and>
   (fst (pt_pkt_decode_psb ext mem (Some d) p) = Inr sz) =
     (pt_pkt_read_psb ext mem (pos d) (config d) = Inr sz) \<and>
   (fst (pt_pkt_decode_psb ext mem (Some d) p) = Inl e) =
     (pt_pkt_read_psb ext mem (pos d) (config d) = Inl e) \<and>
   (pt_pkt_decode_psb ext mem (Some d) p =
      (Inr sz, p\<lparr>pkt_type := ppt_psb, pkt_size := of_nat sz\<rparr>)) =
     (pt_pkt_read_psb ext mem (pos d) (config d) = Inr sz)"
  by (auto simp: pt_pkt_decode_pad_def pt_pkt_decode_ovf_def pt_pkt_decode_psbend_def
      pt_pkt_decode_psb_def split: sum.splits)

text \<open>
  The claim C2 as stated fails for psb: with the same decoder and packet the routine
  returns 16 on a buffer that holds the marker at the cursor and fails with
  \<open>pte_bad_packet\<close> on a buffer of zero bytes.
\<close>

theorem decode_psb_reads_buffer:
  "fst (pt_pkt_decode_psb sample_ext sample_memory (Some synced_decoder) sample_packet) = Inr 16 \<and>
   fst (pt_pkt_decode_psb sample_ext blank_memory (Some synced_decoder) sample_packet) =
     Inl pte_bad_packet"
  by code_simp

section \<open>The decode step\<close>

lemma pt_pkt_next_success:
  assumes "pt_pkt_next ext mem dec pkt = (Inr sz, dec', pkt')"
  shows "\<exists>d p dfun f. dec = Some d \<and> pkt = Some p \<and>
           pt_df_fetch ext mem (pos d) (config d) = Inr (Some dfun) \<and>
           packet_fn dfun = Some f \<and> call_packet ext mem f d p = (Inr sz, pkt') \<and>
           dec' = Some (d\<lparr>pos := pos d + of_nat sz\<rparr>)"
  using assms
  by (auto simp: pt_pkt_next_def split: option.splits sum.splits prod.splits)

lemma pt_pkt_next_failure:
  assumes "pt_pkt_next ext mem dec pkt = (Inl e, dec', pkt')"
  shows "dec' = dec"
  using assms
  by (auto simp: pt_pkt_next_def split: option.splits sum.splits prod.splits)

text \<open>
  C8. If the lookup at the cursor returns without an error and without an entry, or
  with an entry that has no decode function, the decode step fails with
  \<open>pte_internal\<close> and leaves the decoder and the packet as they were.
\<close>

theorem dispatch_gap_is_internal:
  assumes "pt_df_fetch ext mem (pos d) (config d) = Inr None \<or>
           (\<exists>dfun. pt_df_fetch ext mem (pos d) (config d) = Inr (Some dfun) \<and>
                   packet_fn dfun = None)"
  shows "pt_pkt_next ext mem (Some d) (Some p) = (Inl pte_internal, Some d, Some p)"
  using assms by (auto simp: pt_pkt_next_def)

theorem dispatch_gap_is_internal_witness:
  "pt_df_fetch no_entry_ext sample_memory (pos synced_decoder) (config synced_decoder) =
     Inr None \<and>
   pt_pkt_next no_entry_ext sample_memory (Some synced_decoder) (Some sample_packet) =
     (Inl pte_internal, Some synced_decoder, Some sample_packet) \<and>
   pt_df_fetch no_routine_ext sample_memory (pos synced_decoder) (config synced_decoder) =
     Inr (Some \<lparr>packet_fn = None\<rparr>) \<and>
   pt_pkt_next no_routine_ext sample_memory (Some synced_decoder) (Some sample_packet) =
     (Inl pte_internal, Some synced_decoder, Some sample_packet)"
proof -
  have a: "pt_df_fetch no_entry_ext sample_memory (pos synced_decoder) (config synced_decoder) =
      Inr None"
    by code_simp
  have b: "pt_df_fetch no_routine_ext sample_memory (pos synced_decoder)
      (config synced_decoder) = Inr (Some \<lparr>packet_fn = None\<rparr>)"
    by code_simp
  from a have "pt_pkt_next no_entry_ext sample_memory (Some synced_decoder) (Some sample_packet) =
      (Inl pte_internal, Some synced_decoder, Some sample_packet)"
    by (intro dispatch_gap_is_internal) simp
  moreover from b
  have "pt_pkt_next no_routine_ext sample_memory (Some synced_decoder) (Some sample_packet) =
      (Inl pte_internal, Some synced_decoder, Some sample_packet)"
    by (intro dispatch_gap_is_internal) simp
  ultimately show ?thesis using a b by simp
qed

text \<open>
  C4. A decode step that fails, at the lookup, for a missing routine or in the routine,
  returns the decoder it was given: \<open>pos\<close>, \<open>sync\<close> and the view are as before, and
  a retry starts from the same decoder.
\<close>

theorem decode_failure_keeps_decoder:
  assumes "pt_pkt_next ext mem dec pkt = (Inl e, dec', pkt')"
  shows "dec' = dec \<and> pt_pkt_next ext mem dec' pkt = (Inl e, dec', pkt')"
  using assms pt_pkt_next_failure [OF assms] by simp

theorem decode_failure_keeps_decoder_witness:
  "pt_pkt_next sample_ext short_memory (Some short_decoder) (Some sample_packet) =
     (Inl pte_eos, Some short_decoder, Some sample_packet) \<and>
   fst (snd (pt_pkt_next sample_ext short_memory (Some short_decoder) (Some sample_packet))) =
     Some short_decoder"
proof -
  have f: "pt_pkt_next sample_ext short_memory (Some short_decoder) (Some sample_packet) =
      (Inl pte_eos, Some short_decoder, Some sample_packet)"
    by code_simp
  from decode_failure_keeps_decoder [OF f] f show ?thesis by simp
qed

text \<open>
  C3. With the dispatch lookup of the specification, a decode step on a decoder whose
  cursor is null, before \<open>begin\<close> or not before \<open>end\<close> fails and returns the decoder
  and the packet as they were, and its result is the same for every memory: the
  buffer is not read.
\<close>

theorem decode_step_outside_view:
  assumes "pt_df_fetch ext = pt_df_fetch_spec table"
      and "pos d = 0 \<or> pos d < cfg_begin (config d) \<or> cfg_end (config d) \<le> pos d"
  shows "(\<exists>e. pt_pkt_next ext mem (Some d) (Some p) = (Inl e, Some d, Some p)) \<and>
         pt_pkt_next ext mem' (Some d) (Some p) = pt_pkt_next ext mem (Some d) (Some p)"
  using assms by (auto simp: pt_pkt_next_def pt_df_fetch_spec_def)

theorem decode_step_outside_view_witness:
  "pt_df_fetch sample_ext = pt_df_fetch_spec sample_table \<and>
   pos sample_decoder = 0 \<and>
   cfg_end (config end_decoder) \<le> pos end_decoder \<and>
   (\<exists>e. pt_pkt_next sample_ext sample_memory (Some sample_decoder) (Some sample_packet) =
      (Inl e, Some sample_decoder, Some sample_packet)) \<and>
   (\<exists>e. pt_pkt_next sample_ext sample_memory (Some end_decoder) (Some sample_packet) =
      (Inl e, Some end_decoder, Some sample_packet)) \<and>
   pt_pkt_next sample_ext blank_memory (Some end_decoder) (Some sample_packet) =
     pt_pkt_next sample_ext sample_memory (Some end_decoder) (Some sample_packet)"
proof -
  have f: "pt_df_fetch sample_ext = pt_df_fetch_spec sample_table"
    by (simp add: sample_ext_def)
  have a: "pos sample_decoder = 0" by (simp add: sample_decoder_def)
  have b: "cfg_end (config end_decoder) \<le> pos end_decoder"
    by (simp add: end_decoder_def sample_config_def)
  from decode_step_outside_view [OF f, of sample_decoder sample_memory sample_packet] a
    decode_step_outside_view [OF f, of end_decoder sample_memory sample_packet blank_memory] b f
  show ?thesis by simp
qed

section \<open>Consumption accounting of the decode step\<close>








section \<open>Forward synchronisation\<close>

lemma unat_add_of_nat:
  fixes p :: "64 word"
  assumes "unat p + i < 2 ^ 64"
  shows "unat (p + of_nat i) = unat p + i"
proof -
  from assms have i: "i < 2 ^ 64" by linarith
  then have u: "unat (of_nat i :: 64 word) = i" by (simp add: unat_of_nat)
  have "unat p + unat (of_nat i :: 64 word) < 2 ^ LENGTH(64)"
    using assms u by simp
  then have "unat (p + of_nat i) = unat p + unat (of_nat i :: 64 word)"
    by (rule unat_add_lem [THEN iffD1])
  with u show ?thesis by simp
qed

lemma unat_add_of_nat_le:
  fixes p e :: "64 word"
  assumes "unat p + i \<le> unat e"
  shows "unat (p + of_nat i) = unat p + i"
proof -
  have "unat e < 2 ^ 64" using unsigned_less [of e] by simp
  with assms have "unat p + i < 2 ^ 64" by linarith
  then show ?thesis by (rule unat_add_of_nat)
qed

text \<open>What the modelled search returns lies at or after the start and inside the view.\<close>

lemma pt_sync_forward_spec_found:
  assumes "pt_sync_forward_spec pat mem p cfg = Inr a"
  shows "p \<noteq> 0 \<and> cfg_begin cfg \<le> p \<and> unat p \<le> unat a \<and>
         unat a + length pat \<le> unat (cfg_end cfg) \<and> psb_at pat mem a"
proof -
  let ?E = "unat (cfg_end cfg)"
  let ?xs = "map (\<lambda>i. p + of_nat i) [0..<Suc (?E - (unat p + length pat))]"
  from assms have inb: "p \<noteq> 0" "cfg_begin cfg \<le> p" "unat p + length pat \<le> ?E"
    by (auto simp: pt_sync_forward_spec_def split: if_splits)
  with assms have "find (psb_at pat mem) ?xs = Some a"
    by (auto simp: pt_sync_forward_spec_def split: if_splits option.splits)
  then obtain i where i: "i < length ?xs" "psb_at pat mem (?xs ! i)" "a = ?xs ! i"
    by (auto simp: find_Some_iff)
  from i(1) have il: "i \<le> ?E - (unat p + length pat)" by simp
  from i(1,3) have a: "a = p + of_nat i" by (simp del: upt_Suc)
  from il inb(3) have "unat p + i \<le> ?E" by linarith
  then have "unat a = unat p + i" unfolding a by (rule unat_add_of_nat_le)
  with il inb i show ?thesis by auto
qed

lemma sync_forward_success:
  assumes ext: "pt_sync_forward ext = pt_sync_forward_spec pat"
      and ok: "pt_pkt_sync_forward ext mem (Some d) = (Inr n, Some d')"
  shows "on_marker (length pat) d' \<and> config d' = config d"
proof -
  from ok ext obtain s p where s: "pt_sync_forward_spec pat mem p (config d) = Inr s"
    and d': "d' = d\<lparr>sync := s, pos := s\<rparr>"
    by (auto simp: pt_pkt_sync_forward_def Let_def split: sum.splits)
  from pt_sync_forward_spec_found [OF s] have "s \<noteq> 0" "cfg_begin (config d) \<le> s"
    "unat s + length pat \<le> unat (cfg_end (config d))"
    by (auto simp: word_le_nat_alt unat_eq_0)
  with d' show ?thesis by (simp add: on_marker_def)
qed

lemma sync_forward_failure:
  "pt_pkt_sync_forward ext mem (Some d) = (Inl e, dec') \<Longrightarrow> dec' = Some d"
  by (auto simp: pt_pkt_sync_forward_def Let_def split: sum.splits)

text \<open>The skip, for every marker search: a cursor on the sync point starts the search
  \<open>ptps_psb\<close> bytes further on.\<close>

lemma sync_forward_skips:
  assumes "pos d = sync d" and "pos d \<noteq> 0"
  shows "pt_pkt_sync_forward ext mem (Some d) =
     (case pt_sync_forward ext mem (pos d + of_nat (ptps_psb ext)) (config d) of
        Inl e \<Rightarrow> (Inl e, Some d)
      | Inr s \<Rightarrow> (Inr 0, Some (d\<lparr>sync := s, pos := s\<rparr>)))"
  using assms by (simp add: pt_pkt_sync_forward_def Let_def)

text \<open>One call from a decoder whose cursor is not behind its sync point.\<close>

lemma sync_forward_step_mono:
  assumes ext: "pt_sync_forward ext = pt_sync_forward_spec pat"
      and inv: "sync d \<le> pos d" "pos d \<le> cfg_end (config d)"
        "unat (cfg_end (config d)) + ptps_psb ext < 2 ^ 64"
      and ok: "pt_pkt_sync_forward ext mem (Some d) = (Inr n, Some d')"
  shows "sync d \<le> sync d' \<and>
         (pos d = sync d \<and> pos d \<noteq> 0 \<longrightarrow> unat (sync d) + ptps_psb ext \<le> unat (sync d'))"
proof (cases "pos d = 0")
  case True
  with inv(1) have "sync d = 0" by simp
  with True show ?thesis by simp
next
  case False
  show ?thesis
  proof (cases "pos d = sync d")
    case True
    from ok sync_forward_skips [OF True False, of ext mem] ext obtain s where
      s: "pt_sync_forward_spec pat mem (pos d + of_nat (ptps_psb ext)) (config d) = Inr s"
      and d': "d' = d\<lparr>sync := s, pos := s\<rparr>"
      by (auto split: sum.splits)
    from inv(2,3) have "unat (pos d) + ptps_psb ext < 2 ^ 64"
      by (simp add: word_le_nat_alt)
    then have "unat (pos d + of_nat (ptps_psb ext)) = unat (pos d) + ptps_psb ext"
      by (rule unat_add_of_nat)
    with pt_sync_forward_spec_found [OF s] have "unat (pos d) + ptps_psb ext \<le> unat s"
      by simp
    with True d' show ?thesis by (simp add: word_le_nat_alt)
  next
    case ne: False
    from ok \<open>pos d \<noteq> 0\<close> ne ext obtain s where
      s: "pt_sync_forward_spec pat mem (pos d) (config d) = Inr s"
      and d': "d' = d\<lparr>sync := s, pos := s\<rparr>"
      by (auto simp: pt_pkt_sync_forward_def Let_def split: sum.splits)
    from pt_sync_forward_spec_found [OF s] have "pos d \<le> s"
      by (simp add: word_le_nat_alt)
    with inv(1) d' ne show ?thesis by simp
  qed
qed

lemma sync_forward_on_marker:
  assumes ext: "pt_sync_forward ext = pt_sync_forward_spec pat" "ptps_psb ext = length pat"
      and m: "on_marker (length pat) d"
      and ok: "pt_pkt_sync_forward ext mem (Some d) = (Inr n, Some d')"
  shows "pt_sync_forward ext mem (sync d + of_nat (ptps_psb ext)) (config d) = Inr (sync d') \<and>
         unat (sync d) + length pat \<le> unat (sync d')"
proof -
  from m have eq: "pos d = sync d" "pos d \<noteq> 0"
    and le: "unat (sync d) + length pat \<le> unat (cfg_end (config d))"
    by (simp_all add: on_marker_def)
  from ok sync_forward_skips [OF eq, of ext mem] ext eq obtain s where
    s: "pt_sync_forward_spec pat mem (sync d + of_nat (length pat)) (config d) = Inr s"
    and d': "d' = d\<lparr>sync := s, pos := s\<rparr>"
    by (auto split: sum.splits)
  from pt_sync_forward_spec_found [OF s]
  have "unat (sync d + of_nat (length pat)) \<le> unat s" by simp
  moreover have "unat (sync d + of_nat (length pat)) = unat (sync d) + length pat"
    using le by (rule unat_add_of_nat_le)
  ultimately show ?thesis using d' s ext by simp
qed

lemma sync_forward_calls_mono:
  assumes ext: "pt_sync_forward ext = pt_sync_forward_spec pat" "ptps_psb ext = length pat"
  shows "on_marker (length pat) d \<Longrightarrow>
    unat (sync d) \<le> unat (sync (sync_forward_calls ext mem n d)) \<and>
    config (sync_forward_calls ext mem n d) = config d \<and>
    on_marker (length pat) (sync_forward_calls ext mem n d)"
proof (induction n arbitrary: d)
  case 0
  then show ?case by simp
next
  case (Suc n)
  obtain st dec' where r: "pt_pkt_sync_forward ext mem (Some d) = (st, dec')"
    by (cases "pt_pkt_sync_forward ext mem (Some d)")
  show ?case
  proof (cases st)
    case (Inl e)
    with r have "dec' = Some d" by (simp add: sync_forward_failure)
    with r Suc show ?thesis by simp
  next
    case (Inr k)
    with r obtain d' where d': "dec' = Some d'"
      by (auto simp: pt_pkt_sync_forward_def Let_def split: sum.splits)
    from r Inr d' have ok: "pt_pkt_sync_forward ext mem (Some d) = (Inr k, Some d')" by simp
    from sync_forward_success [OF ext(1) ok] have m': "on_marker (length pat) d'"
      and c: "config d' = config d" by simp_all
    from sync_forward_on_marker [OF ext Suc.prems ok]
    have "unat (sync d) \<le> unat (sync d')" by simp
    with Suc.IH [OF m'] c r d' show ?thesis by simp
  qed
qed

lemma offset_le:
  fixes b s t :: "64 word"
  assumes "b \<le> s" and "unat s + k \<le> unat t"
  shows "s - b \<le> t - b \<and> unat (s - b) + k \<le> unat (t - b)"
  using assms by unat_arith

text \<open>
  C5. With the marker search of the specification and \<open>ptps_psb\<close> the length of the
  marker:
  \<^item> a call on a decoder whose cursor stands on its sync point starts the search
    \<open>ptps_psb\<close> bytes after the cursor;
  \<^item> after a successful call the cursor and the sync point both stand on the found
    marker, inside the view; from there, any number of further calls in a row leaves
    a sync offset that is not smaller, and a further successful call has searched from
    the end of the marker and raises the sync offset by \<open>ptps_psb\<close> at least;
  \<^item> a successful call on any decoder whose cursor is not behind its sync point and
    not after \<open>end\<close>, in a view that ends \<open>ptps_psb\<close> bytes or more below the top of
    the address space, does not lower the sync point.
\<close>

theorem sync_forward_progress:
  assumes "pt_sync_forward ext = pt_sync_forward_spec pat"
      and "ptps_psb ext = length pat"
  shows "(pos d = sync d \<and> pos d \<noteq> 0 \<longrightarrow>
            pt_pkt_sync_forward ext mem (Some d) =
              (case pt_sync_forward ext mem (pos d + of_nat (ptps_psb ext)) (config d) of
                 Inl e \<Rightarrow> (Inl e, Some d)
               | Inr s \<Rightarrow> (Inr 0, Some (d\<lparr>sync := s, pos := s\<rparr>)))) \<and>
         (pt_pkt_sync_forward ext mem (Some d0) = (Inr n1, Some d1) \<longrightarrow>
            pos d1 = sync d1 \<and> cfg_begin (config d1) \<le> sync d1 \<and>
            (\<forall>n. config (sync_forward_calls ext mem n d1) = config d1 \<and>
                 sync d1 - cfg_begin (config d1) \<le>
                   sync (sync_forward_calls ext mem n d1) - cfg_begin (config d1)) \<and>
            (\<forall>n2 d2. pt_pkt_sync_forward ext mem (Some d1) = (Inr n2, Some d2) \<longrightarrow>
                 pt_sync_forward ext mem (sync d1 + of_nat (ptps_psb ext)) (config d1) =
                   Inr (sync d2) \<and>
                 config d2 = config d1 \<and>
                 unat (sync d1 - cfg_begin (config d1)) + ptps_psb ext \<le>
                   unat (sync d2 - cfg_begin (config d2)))) \<and>
         (sync d \<le> pos d \<and> pos d \<le> cfg_end (config d) \<and>
          unat (cfg_end (config d)) + ptps_psb ext < 2 ^ 64 \<and>
          pt_pkt_sync_forward ext mem (Some d) = (Inr n, Some d') \<longrightarrow>
            sync d \<le> sync d' \<and> config d' = config d)"
proof (intro conjI impI)
  assume "pos d = sync d \<and> pos d \<noteq> 0"
  then have "pos d = sync d" and "pos d \<noteq> 0" by blast+
  then show "pt_pkt_sync_forward ext mem (Some d) =
      (case pt_sync_forward ext mem (pos d + of_nat (ptps_psb ext)) (config d) of
         Inl e \<Rightarrow> (Inl e, Some d)
       | Inr s \<Rightarrow> (Inr 0, Some (d\<lparr>sync := s, pos := s\<rparr>)))"
    by (rule sync_forward_skips)
next
  assume first: "pt_pkt_sync_forward ext mem (Some d0) = (Inr n1, Some d1)"
  from sync_forward_success [OF assms(1) first] have m: "on_marker (length pat) d1" by simp
  then show "pos d1 = sync d1" by (simp add: on_marker_def)
next
  assume first: "pt_pkt_sync_forward ext mem (Some d0) = (Inr n1, Some d1)"
  from sync_forward_success [OF assms(1) first] have m: "on_marker (length pat) d1" by simp
  then show "cfg_begin (config d1) \<le> sync d1" by (simp add: on_marker_def)
next
  assume first: "pt_pkt_sync_forward ext mem (Some d0) = (Inr n1, Some d1)"
  from sync_forward_success [OF assms(1) first] have m: "on_marker (length pat) d1" by simp
  then have b: "cfg_begin (config d1) \<le> sync d1" by (simp add: on_marker_def)
  show "\<forall>n. config (sync_forward_calls ext mem n d1) = config d1 \<and>
      sync d1 - cfg_begin (config d1) \<le>
        sync (sync_forward_calls ext mem n d1) - cfg_begin (config d1)"
  proof (intro allI conjI)
    fix n
    from sync_forward_calls_mono [OF assms m, of mem n]
    show "config (sync_forward_calls ext mem n d1) = config d1" by simp
    from sync_forward_calls_mono [OF assms m, of mem n]
    have "unat (sync d1) + 0 \<le> unat (sync (sync_forward_calls ext mem n d1))" by simp
    from offset_le [OF b this]
    show "sync d1 - cfg_begin (config d1) \<le>
        sync (sync_forward_calls ext mem n d1) - cfg_begin (config d1)"
      by simp
  qed
next
  assume first: "pt_pkt_sync_forward ext mem (Some d0) = (Inr n1, Some d1)"
  from sync_forward_success [OF assms(1) first] have m: "on_marker (length pat) d1" by simp
  then have b: "cfg_begin (config d1) \<le> sync d1" by (simp add: on_marker_def)
  show "\<forall>n2 d2. pt_pkt_sync_forward ext mem (Some d1) = (Inr n2, Some d2) \<longrightarrow>
      pt_sync_forward ext mem (sync d1 + of_nat (ptps_psb ext)) (config d1) = Inr (sync d2) \<and>
      config d2 = config d1 \<and>
      unat (sync d1 - cfg_begin (config d1)) + ptps_psb ext \<le>
        unat (sync d2 - cfg_begin (config d2))"
  proof (intro allI impI conjI)
    fix n2 d2
    assume ok: "pt_pkt_sync_forward ext mem (Some d1) = (Inr n2, Some d2)"
    from sync_forward_on_marker [OF assms m ok]
    have le: "unat (sync d1) + length pat \<le> unat (sync d2)" by simp
    from sync_forward_on_marker [OF assms m ok]
    show "pt_sync_forward ext mem (sync d1 + of_nat (ptps_psb ext)) (config d1) = Inr (sync d2)"
      by simp
    from sync_forward_success [OF assms(1) ok] show c: "config d2 = config d1" by simp
    from offset_le [OF b le] c assms(2)
    show "unat (sync d1 - cfg_begin (config d1)) + ptps_psb ext \<le>
        unat (sync d2 - cfg_begin (config d2))"
      by simp
  qed
next
  assume a: "sync d \<le> pos d \<and> pos d \<le> cfg_end (config d) \<and>
      unat (cfg_end (config d)) + ptps_psb ext < 2 ^ 64 \<and>
      pt_pkt_sync_forward ext mem (Some d) = (Inr n, Some d')"
  then have inv: "sync d \<le> pos d" "pos d \<le> cfg_end (config d)"
      "unat (cfg_end (config d)) + ptps_psb ext < 2 ^ 64"
    and ok: "pt_pkt_sync_forward ext mem (Some d) = (Inr n, Some d')"
    by simp_all
  from sync_forward_step_mono [OF assms(1) inv ok] show "sync d \<le> sync d'" by simp
  from sync_forward_success [OF assms(1) ok] show "config d' = config d" by simp
qed

theorem sync_forward_progress_witness:
  "pt_sync_forward sample_ext = pt_sync_forward_spec sample_psb \<and>
   ptps_psb sample_ext = length sample_psb \<and>
   pt_pkt_sync_forward sample_ext sample_memory (Some sample_decoder) =
     (Inr 0, Some synced_decoder) \<and>
   pt_pkt_sync_forward sample_ext sample_memory (Some synced_decoder) =
     (Inr 0, Some resynced_decoder) \<and>
   pt_sync_forward sample_ext sample_memory (sync synced_decoder + of_nat (ptps_psb sample_ext))
     (config synced_decoder) = Inr (sync resynced_decoder) \<and>
   unat (sync synced_decoder - cfg_begin (config synced_decoder)) + ptps_psb sample_ext \<le>
     unat (sync resynced_decoder - cfg_begin (config resynced_decoder)) \<and>
   sync synced_decoder - cfg_begin (config synced_decoder) \<le>
     sync (sync_forward_calls sample_ext sample_memory 3 synced_decoder) -
       cfg_begin (config synced_decoder) \<and>
   sync advanced_decoder \<le> pos advanced_decoder \<and>
   pos advanced_decoder \<le> cfg_end (config advanced_decoder) \<and>
   unat (cfg_end (config advanced_decoder)) + ptps_psb sample_ext < 2 ^ 64 \<and>
   pt_pkt_sync_forward sample_ext sample_memory (Some advanced_decoder) =
     (Inr 0, Some resynced_decoder) \<and>
   sync advanced_decoder \<le> sync resynced_decoder"
proof -
  have e: "pt_sync_forward sample_ext = pt_sync_forward_spec sample_psb"
    and l: "ptps_psb sample_ext = length sample_psb"
    by (simp_all add: sample_ext_def sample_psb_def)
  have f1: "pt_pkt_sync_forward sample_ext sample_memory (Some sample_decoder) =
      (Inr 0, Some synced_decoder)"
    by code_simp
  have f2: "pt_pkt_sync_forward sample_ext sample_memory (Some synced_decoder) =
      (Inr 0, Some resynced_decoder)"
    by code_simp
  have f3: "pt_pkt_sync_forward sample_ext sample_memory (Some advanced_decoder) =
      (Inr 0, Some resynced_decoder)"
    by code_simp
  have inv: "sync advanced_decoder \<le> pos advanced_decoder"
    "pos advanced_decoder \<le> cfg_end (config advanced_decoder)"
    "unat (cfg_end (config advanced_decoder)) + ptps_psb sample_ext < 2 ^ 64"
    by (simp_all add: advanced_decoder_def sample_config_def sample_ext_def)
  from sync_forward_progress [OF e l, where ?d0.0 = sample_decoder and ?n1.0 = 0
      and ?d1.0 = synced_decoder and mem = sample_memory and d = advanced_decoder
      and n = 0 and d' = resynced_decoder]
    f1 f2 f3 e l inv
  show ?thesis by blast
qed

section \<open>The cursor and the sync point\<close>

lemma sync_forward_result:
  "pt_pkt_sync_forward ext mem (Some d) = (st, dec') \<Longrightarrow>
     (\<exists>e. st = Inl e \<and> dec' = Some d) \<or>
     (\<exists>s. st = Inr 0 \<and> dec' = Some (d\<lparr>sync := s, pos := s\<rparr>))"
  by (auto simp: pt_pkt_sync_forward_def Let_def split: sum.splits)

lemma sync_backward_result:
  "pt_pkt_sync_backward ext mem (Some d) = (st, dec') \<Longrightarrow>
     (\<exists>e. st = Inl e \<and> dec' = Some d) \<or>
     (\<exists>s. st = Inr 0 \<and> dec' = Some (d\<lparr>sync := s, pos := s\<rparr>))"
  by (auto simp: pt_pkt_sync_backward_def Let_def split: sum.splits)

lemma sync_set_result:
  "pt_pkt_sync_set (Some d) off = (st, dec') \<Longrightarrow>
     (\<exists>e. st = Inl e \<and> dec' = Some d) \<or>
     (\<exists>s. st = Inr 0 \<and> dec' = Some (d\<lparr>sync := s, pos := s\<rparr>))"
  by (auto simp: pt_pkt_sync_set_def Let_def split: if_splits)

lemma pt_pkt_next_result:
  "pt_pkt_next ext mem (Some d) pkt = (st, dec', pkt') \<Longrightarrow>
     (\<exists>e. st = Inl e \<and> dec' = Some d) \<or>
     (\<exists>sz. st = Inr sz \<and> dec' = Some (d\<lparr>pos := pos d + of_nat sz\<rparr>))"
  by (cases st) (auto dest: pt_pkt_next_failure pt_pkt_next_success)

lemma reachable_sync_pos: "reachable ext d \<Longrightarrow> sync d \<noteq> 0 \<Longrightarrow> pos d \<noteq> 0"
proof (induction rule: reachable.induct)
  case (reach_init d0 cfg d)
  then show ?case
    by (auto simp: pt_pkt_decoder_init_def split: if_splits)
next
  case (reach_sync_forward d mem st d')
  from sync_forward_result [OF reach_sync_forward(2)] reach_sync_forward(3,4)
  show ?case by auto
next
  case (reach_sync_backward d mem st d')
  from sync_backward_result [OF reach_sync_backward(2)] reach_sync_backward(3,4)
  show ?case by auto
next
  case (reach_sync_set d off st d')
  from sync_set_result [OF reach_sync_set(2)] reach_sync_set(3,4)
  show ?case by auto
next
  case (reach_next d mem pkt st d' pkt')
  from pt_pkt_next_result [OF reach_next(2)] have "sync d' = sync d" by auto
  with reach_next(4,5) have "pos d \<noteq> 0" by simp
  with reach_next(3) show ?case by (auto simp: word_le_nat_alt unat_eq_0)
qed

text \<open>Construction checks the view and no operation writes it.\<close>

lemma reachable_valid_view:
  "reachable ext d \<Longrightarrow>
     cfg_begin (config d) \<noteq> 0 \<and> cfg_begin (config d) \<le> cfg_end (config d)"
proof (induction rule: reachable.induct)
  case (reach_init d0 cfg d)
  then show ?case
    by (auto simp: pt_pkt_decoder_init_def split: if_splits)
next
  case (reach_sync_forward d mem st d')
  from sync_forward_result [OF reach_sync_forward(2)] reach_sync_forward(3)
  show ?case by auto
next
  case (reach_sync_backward d mem st d')
  from sync_backward_result [OF reach_sync_backward(2)] reach_sync_backward(3)
  show ?case by auto
next
  case (reach_sync_set d off st d')
  from sync_set_result [OF reach_sync_set(2)] reach_sync_set(3)
  show ?case by auto
next
  case (reach_next d mem pkt st d' pkt')
  from pt_pkt_next_result [OF reach_next(2)] reach_next(4)
  show ?case by auto
qed

text \<open>
  C9. A synchronisation operation (forward, backward, explicit seek) either fails and
  returns the decoder as it was, or succeeds and leaves \<open>pos\<close> and \<open>sync\<close> at one and
  the same address, the view unchanged. A decode step never changes \<open>sync\<close> or the
  view. Hence in every reachable decoder a set \<open>sync\<close> comes with a set \<open>pos\<close>.
\<close>

theorem sync_moves_with_pos:
  "(pt_pkt_sync_forward ext mem (Some d) = (st, dec') \<longrightarrow>
      (\<exists>d'. dec' = Some d' \<and> config d' = config d \<and>
         (if isl st then d' = d else pos d' = sync d'))) \<and>
   (pt_pkt_sync_backward ext mem (Some d) = (st, dec') \<longrightarrow>
      (\<exists>d'. dec' = Some d' \<and> config d' = config d \<and>
         (if isl st then d' = d else pos d' = sync d'))) \<and>
   (pt_pkt_sync_set (Some d) off = (st, dec') \<longrightarrow>
      (\<exists>d'. dec' = Some d' \<and> config d' = config d \<and>
         (if isl st then d' = d else pos d' = sync d'))) \<and>
   (pt_pkt_next ext mem (Some d) pkt = (st, dec', pkt') \<longrightarrow>
      (\<exists>d'. dec' = Some d' \<and> config d' = config d \<and> sync d' = sync d)) \<and>
   (reachable ext r \<longrightarrow> sync r \<noteq> 0 \<longrightarrow> pos r \<noteq> 0)"
proof (intro conjI impI)
  assume "pt_pkt_sync_forward ext mem (Some d) = (st, dec')"
  from sync_forward_result [OF this]
  show "\<exists>d'. dec' = Some d' \<and> config d' = config d \<and>
      (if isl st then d' = d else pos d' = sync d')"
    by auto
next
  assume "pt_pkt_sync_backward ext mem (Some d) = (st, dec')"
  from sync_backward_result [OF this]
  show "\<exists>d'. dec' = Some d' \<and> config d' = config d \<and>
      (if isl st then d' = d else pos d' = sync d')"
    by auto
next
  assume "pt_pkt_sync_set (Some d) off = (st, dec')"
  from sync_set_result [OF this]
  show "\<exists>d'. dec' = Some d' \<and> config d' = config d \<and>
      (if isl st then d' = d else pos d' = sync d')"
    by auto
next
  assume "pt_pkt_next ext mem (Some d) pkt = (st, dec', pkt')"
  from pt_pkt_next_result [OF this]
  show "\<exists>d'. dec' = Some d' \<and> config d' = config d \<and> sync d' = sync d"
    by auto
next
  assume "reachable ext r" and "sync r \<noteq> 0"
  then show "pos r \<noteq> 0" by (rule reachable_sync_pos)
qed

theorem sync_moves_with_pos_witness:
  "pt_pkt_sync_forward sample_ext sample_memory (Some sample_decoder) =
     (Inr 0, Some synced_decoder) \<and>
   pos synced_decoder = sync synced_decoder \<and>
   pt_pkt_sync_backward sample_ext sample_memory (Some sample_decoder) =
     (Inr 0, Some resynced_decoder) \<and>
   pos resynced_decoder = sync resynced_decoder \<and>
   pt_pkt_sync_set (Some advanced_decoder) 16 = (Inr 0, Some resynced_decoder) \<and>
   pt_pkt_next sample_ext sample_memory (Some synced_decoder) (Some sample_packet) =
     (Inr 16, Some advanced_decoder, Some \<lparr>pkt_type = ppt_psb, pkt_size = 16, payload = 0\<rparr>) \<and>
   sync advanced_decoder = sync synced_decoder \<and>
   reachable sample_ext advanced_decoder \<and>
   sync advanced_decoder \<noteq> 0 \<and> pos advanced_decoder \<noteq> 0"
proof -
  have i: "pt_pkt_decoder_init sample_ext (Some synced_decoder) (Some sample_config) =
      (Inr 0, Some sample_decoder)"
    by code_simp
  have f: "pt_pkt_sync_forward sample_ext sample_memory (Some sample_decoder) =
      (Inr 0, Some synced_decoder)"
    by code_simp
  have b: "pt_pkt_sync_backward sample_ext sample_memory (Some sample_decoder) =
      (Inr 0, Some resynced_decoder)"
    by code_simp
  have s: "pt_pkt_sync_set (Some advanced_decoder) 16 = (Inr 0, Some resynced_decoder)"
    by code_simp
  have n: "pt_pkt_next sample_ext sample_memory (Some synced_decoder) (Some sample_packet) =
      (Inr 16, Some advanced_decoder, Some \<lparr>pkt_type = ppt_psb, pkt_size = 16, payload = 0\<rparr>)"
    by code_simp
  have le: "pos synced_decoder \<le> pos advanced_decoder"
    by (simp add: synced_decoder_def advanced_decoder_def)
  have r: "reachable sample_ext advanced_decoder"
    by (rule reach_next [OF reach_sync_forward [OF reach_init [OF i] f] n le])
  have z: "sync advanced_decoder \<noteq> 0"
    by (simp add: advanced_decoder_def)
  from sync_moves_with_pos [where ext = sample_ext and mem = sample_memory
      and d = sample_decoder and st = "Inr 0" and dec' = "Some synced_decoder"
      and r = advanced_decoder] f r z
  have "pos synced_decoder = sync synced_decoder" "pos advanced_decoder \<noteq> 0"
    by simp_all
  moreover have "pos resynced_decoder = sync resynced_decoder"
    "sync advanced_decoder = sync synced_decoder"
    by (simp_all add: resynced_decoder_def advanced_decoder_def synced_decoder_def)
  ultimately show ?thesis using f b s n r z by simp
qed

end
